theory Spec2Isabelle
  imports Main "HOL-Library.Word"
begin

section \<open>Data model of merge\_mining\_client\_tari.cpp\<close>

type_synonym byte = "8 word"
type_synonym uint32_t = "32 word"

text \<open>A \<open>TariClient*\<close> is the address of a pooled connection object; \<open>nullptr\<close> is \<open>None\<close>
  where a field may hold it.\<close>

type_synonym ptr = nat

text \<open>Every way the modelled code leaves its normal path: \<open>throw std::exception()\<close> in the
  constructor, \<open>std::string::back()\<close> on an empty string (undefined behaviour: the byte in
  front of the string is read), and a call through a null \<open>m_pairedClient\<close>.\<close>

datatype error = Exception | BackOnEmpty | NullPointer

subsection \<open>Chain parameters\<close>

text \<open>Modelled from the spec: the constant \<open>HASH_SIZE\<close>, the types \<open>hash\<close>,
  \<open>difficulty_type\<close> and \<open>ChainParameters\<close> and their \<open>empty()\<close> members are declared in
  headers that are not part of src/. The spec gives \<open>aux_id\<close> as a fixed 32-byte value and
  \<open>aux_diff\<close> as an opaque byte sequence; a fixed-size value is empty when it is zero-filled.\<close>

definition HASH_SIZE :: nat where
  "HASH_SIZE = 32"

record hash =
  h :: "byte list"

definition hash_empty :: "hash \<Rightarrow> bool" where
  "hash_empty x = list_all (\<lambda>b. b = 0) (h x)"

definition difficulty_empty :: "byte list \<Rightarrow> bool" where
  "difficulty_empty d = (d = [])"

record ChainParameters =
  aux_id :: hash
  aux_diff :: "byte list"

subsection \<open>Proxy connections and the proxy server\<close>

text \<open>\<open>TariClient\<close> with the members of its base class \<open>Client\<close> that this file touches.
  \<open>m_sent\<close> stands for the bytes handed to the socket's outbound path so far.\<close>

record TariClient =
  m_owner :: bool
  m_isIncoming :: bool
  m_isV6 :: bool
  m_addr :: "byte list"
  m_port :: int
  m_addrString :: string
  m_isClosing :: bool
  m_resetCounter :: uint32_t
  m_sent :: "byte list"
  m_pairedClient :: "ptr option"
  m_pairedClientSavedResetCounter :: uint32_t

text \<open>\<open>TariServer\<close> with the members of its base class \<open>TCPServer\<close> that this file touches.
  \<open>clients\<close> is the store of connection objects, \<open>m_preallocatedClients\<close> the pool of idle
  ones, \<open>m_numAllocated\<close> the next address the allocator hands out.\<close>

record TariServer =
  m_TariNodeIsV6 :: bool
  m_TariNodeHost :: string
  m_TariNodePort :: int
  m_internalPort :: int
  m_listenPort :: int
  m_loopThreadCreated :: bool
  m_callbackBuf :: "byte list"
  clients :: "ptr \<Rightarrow> TariClient"
  m_preallocatedClients :: "ptr list"
  m_numAllocated :: ptr

text \<open>The operations of \<open>TCPServer\<close>, \<open>Client\<close>, util and libuv that the file calls and
  that are not part of src/. They are parameters of every function below.\<close>

record tcp =
  get_client :: "TariServer \<Rightarrow> ptr \<times> TariServer"
  return_client :: "ptr \<Rightarrow> TariServer \<Rightarrow> TariServer"
  str_to_ip :: "bool \<Rightarrow> string \<Rightarrow> byte list option"
  connect_to_peer :: "ptr \<Rightarrow> TariServer \<Rightarrow> bool \<times> TariServer"
  send :: "ptr \<Rightarrow> (byte list \<Rightarrow> nat \<Rightarrow> byte list \<times> nat) \<Rightarrow> TariServer \<Rightarrow> bool \<times> TariServer"
  close :: "ptr \<Rightarrow> TariServer \<Rightarrow> TariServer"
  start_listening :: "bool \<Rightarrow> string \<Rightarrow> int \<Rightarrow> TariServer \<Rightarrow> bool \<times> TariServer"
  uv_thread_create :: "TariServer \<Rightarrow> int \<times> TariServer"

text \<open>An assignment through a pointer: \<open>p->field = ...\<close>.\<close>

definition upd :: "ptr \<Rightarrow> (TariClient \<Rightarrow> TariClient) \<Rightarrow> TariServer \<Rightarrow> TariServer" where
  "upd p f s = s\<lparr>clients := (clients s)(p := f (clients s p))\<rparr>"

text \<open>Modelled from the spec: \<open>TariClient::is_paired\<close> is defined in
  merge\_mining\_client\_tari.h, which is not part of src/. The spec: a connection is currently
  paired when it has a partner and its stored partner epoch matches the partner's live epoch.\<close>

definition is_paired :: "ptr \<Rightarrow> TariServer \<Rightarrow> bool" where
  "is_paired c s =
     (case m_pairedClient (clients s c) of
        None \<Rightarrow> False
      | Some p \<Rightarrow> m_resetCounter (clients s p) = m_pairedClientSavedResetCounter (clients s c))"

subsection \<open>The client\<close>

record MergeMiningClientTari =
  m_chainParams :: ChainParameters
  m_auxWallet :: string
  m_hostStr :: string
  m_server :: TariServer

section \<open>The constructor's host string (lines 37 to 51)\<close>

text \<open>\<open>while (host.back() == '/') host.pop_back();\<close>\<close>

function pop_back_slashes :: "string \<Rightarrow> error + string" where
  "pop_back_slashes host =
     (if host = [] then Inl BackOnEmpty
      else if last host = CHR ''/'' then pop_back_slashes (butlast host)
      else Inr host)"
  by pat_completeness auto
termination
  by (relation "measure length") auto

declare pop_back_slashes.simps [simp del]

text \<open>The prefix test, the erase, the loop and the emptiness test. \<open>TARI_PREFIX\<close> is declared
  in the header and is a parameter here.\<close>

definition ctor_host :: "string \<Rightarrow> string \<Rightarrow> error + string" where
  "ctor_host TARI_PREFIX host =
     (if take (length TARI_PREFIX) host \<noteq> TARI_PREFIX then Inl Exception
      else case pop_back_slashes (drop (length TARI_PREFIX) host) of
             Inl e \<Rightarrow> Inl e
           | Inr host' \<Rightarrow> if host' = [] then Inl Exception else Inr host')"

section \<open>get\_params and submit\_solution\<close>

text \<open>The body runs under \<open>ReadLock\<close>, so it reads one state of \<open>m_chainParams\<close>: it is a
  function of that state. The result is the returned flag and the value of \<open>out_params\<close>.\<close>

definition get_params :: "MergeMiningClientTari \<Rightarrow> ChainParameters \<Rightarrow> bool \<times> ChainParameters" where
  "get_params c out_params =
     (if hash_empty (aux_id (m_chainParams c)) \<or> difficulty_empty (aux_diff (m_chainParams c))
      then (False, out_params)
      else (True, m_chainParams c))"

definition submit_solution :: "byte list \<Rightarrow> hash list \<Rightarrow> MergeMiningClientTari \<Rightarrow> MergeMiningClientTari" where
  "submit_solution blob merkle_proof c = c"

section \<open>The chain-id job\<close>

datatype PowAlgos = POW_ALGOS_RANDOMX | POW_ALGOS_SHA3X

record NewBlockTemplateRequest =
  algo :: "PowAlgos option"
  max_weight :: nat

datatype grpc_Status = grpc_OK | grpc_Error nat

text \<open>What the job does besides changing \<open>m_chainParams\<close>: its two log lines and the
  acquisition of the write lock.\<close>

datatype event = LOGINFO_chain_id "byte list" | WriteLock | LOGERR_invalid_size nat

text \<open>The work callback of \<open>merge_mining_get_chain_id\<close>. The two RPC calls of the stub are
  parameters; each returns its status and its response.\<close>

definition merge_mining_get_chain_id ::
  "(NewBlockTemplateRequest \<Rightarrow> grpc_Status \<times> 't) \<Rightarrow> ('t \<Rightarrow> grpc_Status \<times> byte list) \<Rightarrow>
   MergeMiningClientTari \<Rightarrow> event list \<times> MergeMiningClientTari" where
  "merge_mining_get_chain_id GetNewBlockTemplate GetNewBlock client =
     (let request = \<lparr>algo = Some POW_ALGOS_RANDOMX, max_weight = 1\<rparr>;
          (status, response) = GetNewBlockTemplate request;
          (status2, response2) = GetNewBlock response;
          id = response2
      in if length id = HASH_SIZE
         then ([LOGINFO_chain_id id, WriteLock],
               client\<lparr>m_chainParams := (m_chainParams client)
                 \<lparr>aux_id := \<lparr>h = id @ drop (length id) (h (aux_id (m_chainParams client)))\<rparr>\<rparr>\<rparr>)
         else ([LOGINFO_chain_id id, LOGERR_invalid_size (length id)], client))"

section \<open>TariServer\<close>

text \<open>Decimal output of \<open>log::Stream\<close> for the port.\<close>

fun dec_nat :: "nat \<Rightarrow> string" where
  "dec_nat n = (if n < 10 then [char_of (48 + n)] else dec_nat (n div 10) @ [char_of (48 + n mod 10)])"

definition dec :: "int \<Rightarrow> string" where
  "dec i = (if i < 0 then CHR ''-'' # dec_nat (nat (- i)) else dec_nat (nat i))"

text \<open>The constructors. The base-class members start as \<open>TCPServer\<close> and \<open>Client\<close> leave them;
  \<open>BUF_SIZE\<close> is declared in the header and is a parameter.\<close>

definition TariClient_ctor :: TariClient where
  "TariClient_ctor =
     \<lparr>m_owner = False, m_isIncoming = False, m_isV6 = False, m_addr = [], m_port = 0,
      m_addrString = [], m_isClosing = False, m_resetCounter = 0, m_sent = [],
      m_pairedClient = None, m_pairedClientSavedResetCounter = - 1\<rparr>"

definition TariServer_ctor :: "nat \<Rightarrow> TariServer" where
  "TariServer_ctor BUF_SIZE =
     \<lparr>m_TariNodeIsV6 = False, m_TariNodeHost = [], m_TariNodePort = 0, m_internalPort = 0,
      m_listenPort = - 1, m_loopThreadCreated = False, m_callbackBuf = replicate BUF_SIZE 0,
      clients = (\<lambda>_. TariClient_ctor), m_preallocatedClients = [], m_numAllocated = 1\<rparr>"

text \<open>One call of \<open>start_listening\<close> made by \<open>start\<close>: the address and port it was given
  and what it returned.\<close>

record attempt =
  att_ip :: string
  att_port :: int
  att_ok :: bool

text \<open>The loop of \<open>start\<close>: \<open>rd i\<close> is the value of the \<open>i\<close>-th call of the random device.
  The result lists the attempts made, in order.\<close>

function start_loop :: "tcp \<Rightarrow> (nat \<Rightarrow> uint32_t) \<Rightarrow> nat \<Rightarrow> TariServer \<Rightarrow> attempt list \<times> TariServer" where
  "start_loop T rd i s =
     (if i < 10 then
        (let port = uint (49152 + rd i mod 16384);
             r = start_listening T False ''127.0.0.1'' port s
         in if fst r then ([\<lparr>att_ip = ''127.0.0.1'', att_port = port, att_ok = True\<rparr>], snd r)
            else (let r2 = start_loop T rd (Suc i) (snd r)
                  in (\<lparr>att_ip = ''127.0.0.1'', att_port = port, att_ok = False\<rparr> # fst r2, snd r2)))
      else ([], s))"
  by pat_completeness auto
termination
  by (relation "measure (\<lambda>(T, rd, i, s). 10 - i)") auto

declare start_loop.simps [simp del]

definition start :: "tcp \<Rightarrow> (nat \<Rightarrow> uint32_t) \<Rightarrow> TariServer \<Rightarrow> bool \<times> attempt list \<times> TariServer" where
  "start T rd s =
     (let (attempts, s1) = start_loop T rd 0 s
      in if m_listenPort s1 < 0 then (False, attempts, s1)
         else (let (err, s2) = uv_thread_create T s1
               in if err \<noteq> 0 then (False, attempts, s2)
                  else (True, attempts, s2\<lparr>m_loopThreadCreated := True\<rparr>)))"

definition connect_upstream :: "tcp \<Rightarrow> ptr \<Rightarrow> TariServer \<Rightarrow> bool \<times> TariServer" where
  "connect_upstream T downstream s =
     (let is_v6 = m_TariNodeIsV6 s;
          port = m_TariNodePort s;
          (upstream, s1) = get_client T s;
          s2 = upd upstream (\<lambda>c. c\<lparr>m_owner := True, m_port := port, m_isV6 := is_v6\<rparr>) s1;
          ip = m_TariNodeHost s2
      in case str_to_ip T is_v6 ip of
           None \<Rightarrow> (False, return_client T upstream s2)
         | Some addr \<Rightarrow>
             (let s3 = upd upstream (\<lambda>c. c\<lparr>m_addr := addr,
                         m_addrString :=
                           (if is_v6 then ''['' @ ip @ '']:'' @ dec port @ [CHR 0x00]
                            else ip @ '':'' @ dec port @ [CHR 0x00])\<rparr>) s2;
                  (ok, s4) = connect_to_peer T upstream s3
              in if \<not> ok then (False, s4)
                 else (let s5 = upd upstream (\<lambda>c. c\<lparr>m_pairedClient := Some downstream,
                                  m_pairedClientSavedResetCounter := m_resetCounter (clients s4 downstream)\<rparr>) s4;
                           s6 = upd downstream (\<lambda>c. c\<lparr>m_pairedClient := Some upstream,
                                  m_pairedClientSavedResetCounter := m_resetCounter (clients s5 upstream)\<rparr>) s5
                       in (True, s6))))"

section \<open>TariClient\<close>



text \<open>The lambda that \<open>on_read\<close> passes to \<open>send\<close>: \<open>buf\<close> is the content of the buffer it
  is given, the result is the new content and the returned count.\<close>

definition on_read_callback :: "byte list \<Rightarrow> uint32_t \<Rightarrow> byte list \<Rightarrow> nat \<Rightarrow> byte list \<times> nat" where
  "on_read_callback data sz buf buf_size =
     (if unat sz > buf_size then (buf, 0)
      else (take (unat sz) data @ drop (unat sz) buf, unat sz))"

definition on_read :: "tcp \<Rightarrow> ptr \<Rightarrow> byte list \<Rightarrow> uint32_t \<Rightarrow> TariServer \<Rightarrow> bool \<times> TariServer" where
  "on_read T c data sz s =
     (if \<not> m_owner (clients s c) then (False, s)
      else if \<not> is_paired c s then (False, s)
      else send T (the (m_pairedClient (clients s c))) (on_read_callback data sz) s)"

section \<open>A transport to run the code on\<close>

text \<open>Modelled from the spec: \<open>TCPServer::get_client\<close>, \<open>return_client\<close>, \<open>send\<close>,
  \<open>start_listening\<close> and \<open>Client::close\<close> are defined in the transport layer, which is not
  part of src/. The spec: connection objects are allocated lazily and recycled through the
  pool; bytes placed in the send buffer go to the partner's outbound path unchanged and in
  order; closing is immediate and concerns the closed connection only; a successful bind
  records the bound port. What neither the spec nor src/ decides is a parameter: whether the
  address resolves, what \<open>connect_to_peer\<close> does, what \<open>send\<close> returns when its callback has
  placed no bytes, whether a port is free, whether the thread starts.\<close>

definition get_client_model :: "TariServer \<Rightarrow> ptr \<times> TariServer" where
  "get_client_model s =
     (case m_preallocatedClients s of
        p # ps \<Rightarrow> (p, s\<lparr>m_preallocatedClients := ps\<rparr>)
      | [] \<Rightarrow> (m_numAllocated s,
               s\<lparr>clients := (clients s)(m_numAllocated s := TariClient_ctor),
                 m_numAllocated := Suc (m_numAllocated s)\<rparr>))"

definition return_client_model :: "ptr \<Rightarrow> TariServer \<Rightarrow> TariServer" where
  "return_client_model p s = s\<lparr>m_preallocatedClients := p # m_preallocatedClients s\<rparr>"

definition send_model ::
  "bool \<Rightarrow> ptr \<Rightarrow> (byte list \<Rightarrow> nat \<Rightarrow> byte list \<times> nat) \<Rightarrow> TariServer \<Rightarrow> bool \<times> TariServer" where
  "send_model empty_result client callback s =
     (let (buf, bytes_written) = callback (m_callbackBuf s) (length (m_callbackBuf s));
          s1 = s\<lparr>m_callbackBuf := buf\<rparr>
      in if bytes_written = 0 then (empty_result, s1)
         else (True, upd client (\<lambda>x. x\<lparr>m_sent := m_sent x @ take bytes_written buf\<rparr>) s1))"

definition close_model :: "ptr \<Rightarrow> TariServer \<Rightarrow> TariServer" where
  "close_model p s = upd p (\<lambda>x. x\<lparr>m_isClosing := True\<rparr>) s"

definition start_listening_model ::
  "(int \<Rightarrow> bool) \<Rightarrow> bool \<Rightarrow> string \<Rightarrow> int \<Rightarrow> TariServer \<Rightarrow> bool \<times> TariServer" where
  "start_listening_model port_free is_v6 ip port s =
     (if port_free port then (True, s\<lparr>m_listenPort := port\<rparr>) else (False, s))"

definition TCPServer_model ::
  "(bool \<Rightarrow> string \<Rightarrow> byte list option) \<Rightarrow> (ptr \<Rightarrow> TariServer \<Rightarrow> bool \<times> TariServer) \<Rightarrow> bool \<Rightarrow>
   (int \<Rightarrow> bool) \<Rightarrow> int \<Rightarrow> tcp" where
  "TCPServer_model resolve connect empty_result port_free thread_err =
     \<lparr>get_client = get_client_model,
      return_client = return_client_model,
      str_to_ip = resolve,
      connect_to_peer = connect,
      send = send_model empty_result,
      close = close_model,
      start_listening = start_listening_model port_free,
      uv_thread_create = (\<lambda>s. (thread_err, s))\<rparr>"

section \<open>Concrete inputs\<close>

text \<open>A server listening nowhere yet, with an eight-byte send buffer and a configured node.\<close>

definition ex_server :: TariServer where
  "ex_server = (TariServer_ctor 8)\<lparr>m_TariNodeHost := ''10.0.0.5'', m_TariNodePort := 9000\<rparr>"

text \<open>The same server with the connections at addresses 1 and 2 paired with each other,
  connection 3 holding a stale pointer to 2, and connection 4 accepted but not paired.\<close>

definition ex_paired :: TariServer where
  "ex_paired =
     upd 4 (\<lambda>x. x\<lparr>m_owner := True, m_isIncoming := True\<rparr>)
      (upd 3 (\<lambda>x. x\<lparr>m_owner := True, m_pairedClient := Some 2, m_pairedClientSavedResetCounter := 7\<rparr>)
       (upd 2 (\<lambda>x. x\<lparr>m_owner := True, m_pairedClient := Some 1, m_pairedClientSavedResetCounter := 0\<rparr>)
         (upd 1 (\<lambda>x. x\<lparr>m_owner := True, m_isIncoming := True, m_pairedClient := Some 2,
                        m_pairedClientSavedResetCounter := 0\<rparr>)
            (ex_server\<lparr>m_numAllocated := 5\<rparr>))))"


text \<open>Transports. On the first everything succeeds, and a send whose callback placed nothing
  returns true; on the second such a send returns false; on the third the address does not
  resolve; on the fourth \<open>connect_to_peer\<close> returns false and does nothing else.\<close>

definition ex_tcp :: tcp where
  "ex_tcp = TCPServer_model (\<lambda>is_v6 ip. Some [10, 0, 0, 5]) (\<lambda>p t. (True, t)) True (\<lambda>port. True) 0"

definition ex_tcp_strict :: tcp where
  "ex_tcp_strict =
     TCPServer_model (\<lambda>is_v6 ip. Some [10, 0, 0, 5]) (\<lambda>p t. (True, t)) False (\<lambda>port. True) 0"



text \<open>A random device that returns 16383 on every call.\<close>

definition ex_rd_16383 :: "nat \<Rightarrow> uint32_t" where
  "ex_rd_16383 i = 16383"

text \<open>A transport on which port 49152 is taken, and a random device that counts.\<close>

definition ex_tcp_some_busy :: tcp where
  "ex_tcp_some_busy =
     TCPServer_model (\<lambda>is_v6 ip. Some [10, 0, 0, 5]) (\<lambda>p t. (True, t)) True (\<lambda>port. 49153 \<le> port) 0"

definition ex_rd_count :: "nat \<Rightarrow> uint32_t" where
  "ex_rd_count i = of_nat i"

text \<open>A client whose parameters are both set, and one fresh from the constructor.\<close>

definition ex_id :: "byte list" where
  "ex_id = replicate 32 1"

definition ex_client_fresh :: MergeMiningClientTari where
  "ex_client_fresh =
     \<lparr>m_chainParams = \<lparr>aux_id = \<lparr>h = replicate 32 0\<rparr>, aux_diff = []\<rparr>,
      m_auxWallet = ''wallet'', m_hostStr = ''tari://10.0.0.5:9000'', m_server = ex_server\<rparr>"

definition ex_client_valid :: MergeMiningClientTari where
  "ex_client_valid =
     ex_client_fresh\<lparr>m_chainParams := \<lparr>aux_id = \<lparr>h = ex_id\<rparr>, aux_diff = [1]\<rparr>\<rparr>"

definition ex_GetNewBlockTemplate :: "NewBlockTemplateRequest \<Rightarrow> grpc_Status \<times> nat" where
  "ex_GetNewBlockTemplate request = (grpc_Error 14, 0)"

definition ex_GetNewBlock :: "nat \<Rightarrow> grpc_Status \<times> byte list" where
  "ex_GetNewBlock template = (grpc_OK, ex_id)"

section \<open>Published parameters\<close>

text \<open>C1: \<open>get_params\<close> returns false exactly when \<open>aux_id\<close> or \<open>aux_diff\<close> is empty at
  the time of the call; otherwise it returns true and \<open>out_params\<close> is the whole of
  \<open>m_chainParams\<close> as it was in that one state, so both fields come from the same moment.
  A call that returns false leaves \<open>out_params\<close> as it was.\<close>

theorem get_params_absent_iff:
  "fst (get_params c out_params) =
     (\<not> (hash_empty (aux_id (m_chainParams c)) \<or> difficulty_empty (aux_diff (m_chainParams c))))
   \<and> snd (get_params c out_params) =
       (if fst (get_params c out_params) then m_chainParams c else out_params)"
  by (simp add: get_params_def)

theorem get_params_absent_iff_witness:
  "fst (get_params ex_client_valid (m_chainParams ex_client_fresh)) \<and>
   snd (get_params ex_client_valid (m_chainParams ex_client_fresh)) = m_chainParams ex_client_valid \<and>
   \<not> fst (get_params ex_client_fresh (m_chainParams ex_client_valid))"
  using get_params_absent_iff [of ex_client_valid "m_chainParams ex_client_fresh"]
        get_params_absent_iff [of ex_client_fresh "m_chainParams ex_client_valid"]
  by (simp add: ex_client_valid_def ex_client_fresh_def hash_empty_def difficulty_empty_def
        ex_id_def list_all_iff)

text \<open>C10: \<open>submit_solution\<close> returns normally and changes nothing: the client after the call
  is the client before it, with its published parameters, its server and every connection.\<close>

theorem submit_solution_no_effect:
  "submit_solution blob merkle_proof c = c"
  by (simp add: submit_solution_def)

section \<open>The host string\<close>

lemma pop_back_slashes_Nil: "pop_back_slashes [] = Inl BackOnEmpty"
  by (subst pop_back_slashes.simps) simp

lemma pop_back_slashes_snoc_slash:
  "pop_back_slashes (host @ [CHR ''/'']) = pop_back_slashes host"
  by (subst pop_back_slashes.simps) simp

lemma pop_back_slashes_only: "pop_back_slashes (replicate n (CHR ''/'')) = Inl BackOnEmpty"
proof (induction n)
  case 0
  show ?case by (simp add: pop_back_slashes_Nil)
next
  case (Suc n)
  have "replicate (Suc n) (CHR ''/'') = replicate n (CHR ''/'') @ [CHR ''/'']"
    by (simp add: replicate_append_same)
  then have "pop_back_slashes (replicate (Suc n) (CHR ''/'')) =
             pop_back_slashes (replicate n (CHR ''/''))"
    by (simp only: pop_back_slashes_snoc_slash)
  then show ?case using Suc by simp
qed

text \<open>C9: a host that is the prefix followed by nothing but slashes should be rejected by the
  exception, and the stripping loop should never read in front of the string. The loop tests
  \<open>host.back()\<close> without testing \<open>host.empty()\<close>: once every slash is popped (or at once, for
  the bare prefix) it calls \<open>back()\<close> on the empty string. The emptiness test that follows
  the loop, and its exception, are never reached on such a host.\<close>

theorem ctor_host_only_slashes:
  "ctor_host TARI_PREFIX (TARI_PREFIX @ replicate n (CHR ''/'')) = Inl BackOnEmpty"
  by (simp add: ctor_host_def pop_back_slashes_only)

lemma ctor_host_bare_prefix: "ctor_host ''tari://'' ''tari://'' = Inl BackOnEmpty"
  by (simp add: ctor_host_def pop_back_slashes_Nil)

section \<open>The chain-id job\<close>

text \<open>C2: whatever identifier the second call returns, the job writes \<open>aux_id\<close> (under the
  write lock) exactly when the identifier has 32 bytes, and then \<open>aux_id\<close> is that
  identifier; with any other length it logs the error and leaves the client as it was. The
  statuses of the two calls play no part: replacing them by any other statuses gives the same
  result.\<close>

theorem chain_id_published_iff_32_bytes:
  fixes GetNewBlockTemplate :: "NewBlockTemplateRequest \<Rightarrow> grpc_Status \<times> 't"
    and GetNewBlock :: "'t \<Rightarrow> grpc_Status \<times> byte list"
  assumes len: "length (h (aux_id (m_chainParams client))) = HASH_SIZE"
    and tmpl: "GetNewBlockTemplate \<lparr>algo = Some POW_ALGOS_RANDOMX, max_weight = 1\<rparr> = (status, template)"
    and blk: "GetNewBlock template = (status2, uid)"
  shows "merge_mining_get_chain_id GetNewBlockTemplate GetNewBlock client =
           (if length uid = 32
            then ([LOGINFO_chain_id uid, WriteLock],
                  client\<lparr>m_chainParams := (m_chainParams client)\<lparr>aux_id := \<lparr>h = uid\<rparr>\<rparr>\<rparr>)
            else ([LOGINFO_chain_id uid, LOGERR_invalid_size (length uid)], client))
         \<and> merge_mining_get_chain_id
             (\<lambda>request. (status', snd (GetNewBlockTemplate request)))
             (\<lambda>t. (status2', snd (GetNewBlock t))) client =
           merge_mining_get_chain_id GetNewBlockTemplate GetNewBlock client"
  using len tmpl blk by (simp add: merge_mining_get_chain_id_def HASH_SIZE_def)

theorem chain_id_published_iff_32_bytes_witness:
  "merge_mining_get_chain_id ex_GetNewBlockTemplate ex_GetNewBlock ex_client_fresh =
     ([LOGINFO_chain_id ex_id, WriteLock],
      ex_client_fresh\<lparr>m_chainParams := (m_chainParams ex_client_fresh)\<lparr>aux_id := \<lparr>h = ex_id\<rparr>\<rparr>\<rparr>)"
  using chain_id_published_iff_32_bytes [of ex_client_fresh ex_GetNewBlockTemplate "grpc_Error 14" 0
          ex_GetNewBlock grpc_OK ex_id grpc_OK grpc_OK]
  by (simp add: ex_GetNewBlockTemplate_def ex_GetNewBlock_def ex_client_fresh_def ex_id_def HASH_SIZE_def)

section \<open>Forwarding\<close>

lemmas ex_defs = ex_paired_def ex_server_def upd_def TariServer_ctor_def TariClient_ctor_def

lemmas model_defs = TCPServer_model_def get_client_model_def return_client_model_def
  close_model_def start_listening_model_def

text \<open>C3: a read on a connection that has no partner, or whose saved partner epoch differs
  from the partner's current reset counter, is rejected: \<open>on_read\<close> returns false and the
  server state is unchanged, so no byte reaches any connection, whatever \<open>send\<close> would do.\<close>

theorem on_read_rejects_unpaired_or_stale:
  assumes "m_pairedClient (clients s c) = None \<or>
           (\<exists>p. m_pairedClient (clients s c) = Some p \<and>
                m_pairedClientSavedResetCounter (clients s c) \<noteq> m_resetCounter (clients s p))"
  shows "on_read T c data sz s = (False, s)"
  using assms by (auto simp: on_read_def is_paired_def)

theorem on_read_rejects_unpaired_or_stale_witness:
  "on_read ex_tcp 3 [1, 2, 3] 3 ex_paired = (False, ex_paired) \<and>
   on_read ex_tcp 4 [1, 2, 3] 3 ex_paired = (False, ex_paired)"
  using on_read_rejects_unpaired_or_stale [of ex_paired 3 ex_tcp "[1, 2, 3]" 3]
        on_read_rejects_unpaired_or_stale [of ex_paired 4 ex_tcp "[1, 2, 3]" 3]
  by (simp add: ex_defs)




text \<open>The two ways a transport can go, on that connection: where an empty send returns true
  the nine-byte read succeeds and forwards nothing; where it returns false the read of no
  bytes fails.\<close>

lemma on_read_empty_and_oversize_examples:
  "on_read ex_tcp 1 [1, 2, 3, 4, 5, 6, 7, 8, 9] 9 ex_paired = (True, ex_paired) \<and>
   on_read ex_tcp_strict 1 [] 0 ex_paired = (False, ex_paired)"
proof -
  have "m_owner (clients ex_paired 1)" and "is_paired 1 ex_paired"
    and "length (m_callbackBuf ex_paired) = 8"
    by (simp_all add: ex_defs is_paired_def)
  then show ?thesis
    by (simp add: on_read_def on_read_callback_def ex_tcp_def ex_tcp_strict_def
          TCPServer_model_def send_model_def)
qed



section \<open>Pairing\<close>

text \<open>C5: when \<open>connect_upstream\<close> returns true, the two connections point at each other
  (\<open>upstream\<close> being the object \<open>get_client\<close> handed out), and each one's saved counter is
  the other's reset counter. This holds for any behaviour of the transport operations, and
  also if the pool were to hand out the downstream object itself.\<close>

theorem connect_upstream_pairs_symmetrically:
  assumes "connect_upstream T downstream s = (True, s')"
  shows "m_pairedClient (clients s' downstream) = Some (fst (get_client T s)) \<and>
         m_pairedClient (clients s' (fst (get_client T s))) = Some downstream \<and>
         m_pairedClientSavedResetCounter (clients s' downstream) =
           m_resetCounter (clients s' (fst (get_client T s))) \<and>
         m_pairedClientSavedResetCounter (clients s' (fst (get_client T s))) =
           m_resetCounter (clients s' downstream)"
  using assms
  by (auto simp: connect_upstream_def upd_def Let_def split: prod.splits option.splits if_splits)

theorem connect_upstream_pairs_symmetrically_witness:
  "m_pairedClient (clients (snd (connect_upstream ex_tcp 4 ex_paired)) 4) = Some 5 \<and>
   m_pairedClient (clients (snd (connect_upstream ex_tcp 4 ex_paired)) 5) = Some 4 \<and>
   m_pairedClientSavedResetCounter (clients (snd (connect_upstream ex_tcp 4 ex_paired)) 4) =
     m_resetCounter (clients (snd (connect_upstream ex_tcp 4 ex_paired)) 5) \<and>
   m_pairedClientSavedResetCounter (clients (snd (connect_upstream ex_tcp 4 ex_paired)) 5) =
     m_resetCounter (clients (snd (connect_upstream ex_tcp 4 ex_paired)) 4)"
proof -
  have ok: "fst (connect_upstream ex_tcp 4 ex_paired)"
    by (simp add: connect_upstream_def ex_tcp_def model_defs ex_defs Let_def)
  have up: "fst (get_client ex_tcp ex_paired) = 5"
    by (simp add: ex_tcp_def model_defs ex_defs)
  have run: "connect_upstream ex_tcp 4 ex_paired = (True, snd (connect_upstream ex_tcp 4 ex_paired))"
    using ok by (simp add: prod_eq_iff)
  show ?thesis
    using connect_upstream_pairs_symmetrically [OF run] by (simp only: up)
qed




section \<open>Listening\<close>

lemma start_port_range:
  "49152 \<le> uint (49152 + r mod 16384 :: uint32_t) \<and> uint (49152 + r mod 16384 :: uint32_t) \<le> 65535"
proof -
  have m: "uint (r mod 16384) = uint r mod 16384"
    by (simp add: uint_mod)
  have "0 \<le> uint r mod 16384" and "uint r mod 16384 < 16384"
    by simp_all
  then have "uint (49152 + r mod 16384 :: uint32_t) = 49152 + uint r mod 16384"
    by (simp add: uint_word_ariths m)
  then show ?thesis by simp
qed

lemma start_loop_done: "\<not> i < 10 \<Longrightarrow> start_loop T rd i s = ([], s)"
  by (subst start_loop.simps) simp

lemma start_loop_bound:
  "i < 10 \<Longrightarrow> fst (start_listening T False ''127.0.0.1'' (uint (49152 + rd i mod 16384)) s) \<Longrightarrow>
   start_loop T rd i s =
     ([\<lparr>att_ip = ''127.0.0.1'', att_port = uint (49152 + rd i mod 16384), att_ok = True\<rparr>],
      snd (start_listening T False ''127.0.0.1'' (uint (49152 + rd i mod 16384)) s))"
  by (subst start_loop.simps) (simp add: Let_def)

lemma start_loop_retry:
  "i < 10 \<Longrightarrow> \<not> fst (start_listening T False ''127.0.0.1'' (uint (49152 + rd i mod 16384)) s) \<Longrightarrow>
   start_loop T rd i s =
     (\<lparr>att_ip = ''127.0.0.1'', att_port = uint (49152 + rd i mod 16384), att_ok = False\<rparr> #
        fst (start_loop T rd (Suc i)
               (snd (start_listening T False ''127.0.0.1'' (uint (49152 + rd i mod 16384)) s))),
      snd (start_loop T rd (Suc i)
             (snd (start_listening T False ''127.0.0.1'' (uint (49152 + rd i mod 16384)) s))))"
  by (subst start_loop.simps) (simp add: Let_def)

lemma start_loop_attempts:
  "length (fst (start_loop T rd i s)) \<le> 10 - i \<and>
   (\<forall>a \<in> set (fst (start_loop T rd i s)).
      att_ip a = ''127.0.0.1'' \<and> 49152 \<le> att_port a \<and> att_port a \<le> 65535)"
proof (induction T rd i s rule: start_loop.induct)
  case (1 T rd i s)
  show ?case
  proof (cases "i < 10")
    case False
    then show ?thesis by (simp add: start_loop_done)
  next
    case True
    show ?thesis
    proof (cases "fst (start_listening T False ''127.0.0.1'' (uint (49152 + rd i mod 16384)) s)")
      case ok: True
      with True show ?thesis
        using start_port_range [of "rd i"] by (simp add: start_loop_bound)
    next
      case bad: False
      with True show ?thesis
        using start_port_range [of "rd i"] "1.IH" [OF True refl refl bad]
        by (auto simp: start_loop_retry)
    qed
  qed
qed

lemma start_loop_listenPort:
  assumes ok: "\<And>v6 ip port t. fst (start_listening T v6 ip port t) \<Longrightarrow>
                 m_listenPort (snd (start_listening T v6 ip port t)) = port"
    and fail: "\<And>v6 ip port t. \<not> fst (start_listening T v6 ip port t) \<Longrightarrow>
                 m_listenPort (snd (start_listening T v6 ip port t)) = m_listenPort t"
  shows "if (\<exists>a \<in> set (fst (start_loop T rd i s)). att_ok a)
         then 49152 \<le> m_listenPort (snd (start_loop T rd i s))
         else m_listenPort (snd (start_loop T rd i s)) = m_listenPort s"
  using ok fail
proof (induction T rd i s rule: start_loop.induct)
  case (1 T rd i s)
  show ?case
  proof (cases "i < 10")
    case False
    then show ?thesis by (simp add: start_loop_done)
  next
    case True
    show ?thesis
    proof (cases "fst (start_listening T False ''127.0.0.1'' (uint (49152 + rd i mod 16384)) s)")
      case ok: True
      with True show ?thesis
        using start_port_range [of "rd i"] "1.prems"(1) [OF ok]
        by (simp add: start_loop_bound)
    next
      case bad: False
      with True show ?thesis
        using "1.IH" [OF True refl refl bad "1.prems"] "1.prems"(2) [OF bad]
        by (simp add: start_loop_retry)
    qed
  qed
qed

text \<open>C7, as the spec states it: every port that \<open>start\<close> tries lies in the half-open
  interval from 49152 to 65535. It does not: when the random device returns 16383 (or any
  value that is 16383 modulo 16384) the port tried, and here bound, is 65535.\<close>

theorem start_port_65535:
  "\<not> (\<forall>a \<in> set (fst (snd (start ex_tcp ex_rd_16383 ex_server))).
        49152 \<le> att_port a \<and> att_port a < 65535)"
proof -
  have "start_loop ex_tcp ex_rd_16383 0 ex_server =
          ([\<lparr>att_ip = ''127.0.0.1'', att_port = 65535, att_ok = True\<rparr>],
           ex_server\<lparr>m_listenPort := 65535\<rparr>)"
    by (simp add: start_loop_bound ex_tcp_def model_defs ex_rd_16383_def)
  then show ?thesis by (simp add: start_def ex_tcp_def model_defs)
qed

text \<open>C7, amended: \<open>start\<close> makes at most 10 bind attempts, each on 127.0.0.1 and on a port
  from 49152 to 65535, both included. On a server that is not listening yet, and with a
  \<open>start_listening\<close> that records the port in \<open>m_listenPort\<close> when it succeeds and leaves
  \<open>m_listenPort\<close> alone when it fails, \<open>start\<close> returns true exactly when one of these
  attempts binds and \<open>uv_thread_create\<close> returns 0; so it returns false when all attempts
  fail or the thread does not start.\<close>

theorem start_attempts_and_result:
  assumes fresh: "m_listenPort s < 0"
    and ok: "\<And>v6 ip port t. fst (start_listening T v6 ip port t) \<Longrightarrow>
                 m_listenPort (snd (start_listening T v6 ip port t)) = port"
    and fail: "\<And>v6 ip port t. \<not> fst (start_listening T v6 ip port t) \<Longrightarrow>
                 m_listenPort (snd (start_listening T v6 ip port t)) = m_listenPort t"
    and run: "start T rd s = (res, attempts, s')"
  shows "length attempts \<le> 10 \<and>
         (\<forall>a \<in> set attempts. att_ip a = ''127.0.0.1'' \<and> 49152 \<le> att_port a \<and> att_port a \<le> 65535) \<and>
         (res \<longleftrightarrow> (\<exists>a \<in> set attempts. att_ok a) \<and>
                  fst (uv_thread_create T (snd (start_loop T rd 0 s))) = 0)"
proof -
  have att: "attempts = fst (start_loop T rd 0 s)"
    using run by (auto simp: start_def Let_def split: prod.splits if_splits)
  have "length attempts \<le> 10"
    and "\<forall>a \<in> set attempts. att_ip a = ''127.0.0.1'' \<and> 49152 \<le> att_port a \<and> att_port a \<le> 65535"
    using start_loop_attempts [of T rd 0 s] by (simp_all add: att)
  moreover have "res \<longleftrightarrow> (\<exists>a \<in> set attempts. att_ok a) \<and>
                  fst (uv_thread_create T (snd (start_loop T rd 0 s))) = 0"
  proof (cases "\<exists>a \<in> set (fst (start_loop T rd 0 s)). att_ok a")
    case True
    then have "49152 \<le> m_listenPort (snd (start_loop T rd 0 s))"
      using start_loop_listenPort [OF ok fail, of rd 0 s] by simp
    with True run show ?thesis
      by (auto simp: start_def Let_def att split: prod.splits if_splits)
  next
    case False
    then have "m_listenPort (snd (start_loop T rd 0 s)) = m_listenPort s"
      using start_loop_listenPort [OF ok fail, of rd 0 s] by simp
    with False fresh run show ?thesis
      by (auto simp: start_def Let_def att split: prod.splits if_splits)
  qed
  ultimately show ?thesis by simp
qed

theorem start_attempts_and_result_witness:
  "m_listenPort ex_server < 0 \<and>
   start ex_tcp_some_busy ex_rd_count ex_server =
     (True,
      [\<lparr>att_ip = ''127.0.0.1'', att_port = 49152, att_ok = False\<rparr>,
       \<lparr>att_ip = ''127.0.0.1'', att_port = 49153, att_ok = True\<rparr>],
      ex_server\<lparr>m_listenPort := 49153, m_loopThreadCreated := True\<rparr>)"
proof -
  have fresh: "m_listenPort ex_server < 0"
    by (simp add: ex_server_def TariServer_ctor_def)
  have ok: "\<And>v6 ip port t. fst (start_listening ex_tcp_some_busy v6 ip port t) \<Longrightarrow>
              m_listenPort (snd (start_listening ex_tcp_some_busy v6 ip port t)) = port"
    and fail: "\<And>v6 ip port t. \<not> fst (start_listening ex_tcp_some_busy v6 ip port t) \<Longrightarrow>
              m_listenPort (snd (start_listening ex_tcp_some_busy v6 ip port t)) = m_listenPort t"
    by (auto simp: ex_tcp_some_busy_def model_defs split: if_splits)
  have port0: "uint (49152 + ex_rd_count 0 mod 16384) = 49152"
    and port1: "uint (49152 + ex_rd_count (Suc 0) mod 16384) = 49153"
    by (simp_all add: ex_rd_count_def)
  have taken: "start_listening ex_tcp_some_busy False ''127.0.0.1'' 49152 ex_server = (False, ex_server)"
    and free: "start_listening ex_tcp_some_busy False ''127.0.0.1'' 49153 ex_server =
                 (True, ex_server\<lparr>m_listenPort := 49153\<rparr>)"
    by (simp_all add: ex_tcp_some_busy_def model_defs)
  have second: "start_loop ex_tcp_some_busy ex_rd_count (Suc 0) ex_server =
                  ([\<lparr>att_ip = ''127.0.0.1'', att_port = 49153, att_ok = True\<rparr>],
                   ex_server\<lparr>m_listenPort := 49153\<rparr>)"
    by (subst start_loop_bound) (simp_all add: port1 free)
  have first: "start_loop ex_tcp_some_busy ex_rd_count 0 ex_server =
                 ([\<lparr>att_ip = ''127.0.0.1'', att_port = 49152, att_ok = False\<rparr>,
                   \<lparr>att_ip = ''127.0.0.1'', att_port = 49153, att_ok = True\<rparr>],
                  ex_server\<lparr>m_listenPort := 49153\<rparr>)"
    by (subst start_loop_retry) (simp_all add: port0 taken second)
  have run: "start ex_tcp_some_busy ex_rd_count ex_server =
               (True,
                [\<lparr>att_ip = ''127.0.0.1'', att_port = 49152, att_ok = False\<rparr>,
                 \<lparr>att_ip = ''127.0.0.1'', att_port = 49153, att_ok = True\<rparr>],
                ex_server\<lparr>m_listenPort := 49153, m_loopThreadCreated := True\<rparr>)"
    by (simp add: start_def first) (simp add: ex_tcp_some_busy_def model_defs)
  show ?thesis
    using start_attempts_and_result [OF fresh ok fail run] fresh run by simp
qed

section \<open>Reset\<close>





end
